theory Spec2Isabelle
  imports Main
begin

section \<open>What is modelled\<close>

text \<open>
  The theory follows the bodies of the functions of \<^verbatim>\<open>corrector.py\<close> statement by
  statement, as Python runs them: \<^verbatim>\<open>MathJaxCorrector._replace_tag\<close> (the scan with
  the two stacks), \<^verbatim>\<open>Corrector.process\<close> (the files it opens and closes),
  \<^verbatim>\<open>MathJaxCorrector._process\<close> (what is read and written) and
  \<^verbatim>\<open>FileManager.__init__\<close> and \<^verbatim>\<open>FileManager.process\<close> (the loop over the files).

  The module names things that it neither defines nor imports. Those that stand for
  code outside the functions at hand are supplied: the module \<^verbatim>\<open>os\<close> is the one of
  the standard library, the paths yielded by \<^verbatim>\<open>files()\<close> and the tags yielded by
  \<^verbatim>\<open>match_tag\<close> are parameters, and so are the abstract method \<^verbatim>\<open>_process\<close> and the
  call operator of a tag. A name that a function uses for one of its own variables, but
  spells differently, is what Python makes of it: a name that is not bound, whose use
  raises \<^verbatim>\<open>NameError\<close> or \<^verbatim>\<open>UnboundLocalError\<close>. That is the case of
  \<^verbatim>\<open>math_tag_stack\<close> at line 159, of \<^verbatim>\<open>BeautifulSoap\<close> at line 173, of
  \<^verbatim>\<open>soup_kws\<close> at line 115 and of \<^verbatim>\<open>infile_path\<close> at line 55, which is assigned only at line 60 (line 56 assigns
  \<^verbatim>\<open>inffile_path\<close>). The \<^verbatim>\<open>else\<close> of line 40 lacks its colon; the branch is
  modelled as the \<^verbatim>\<open>else\<close> branch it is.
\<close>

section \<open>Python errors\<close>

text \<open>
  Every exception that the modelled statements can raise is a value: a function that
  can raise returns a sum, with \<open>Inl\<close> for the exception.
\<close>

datatype py_error =
    IndexError
  | NameError string
  | UnboundLocalError string
  | PyException string
  | AttributeError
  | FileNotFoundError
  | IsADirectoryError
  | PermissionError
  | UnsupportedOperation

section \<open>The tag scanner of \<^verbatim>\<open>MathJaxCorrector._replace_tag\<close>\<close>

subsection \<open>Tags\<close>

text \<open>
  Modelled from the spec: the classes \<^verbatim>\<open>MathJaxTag\<close> and \<^verbatim>\<open>HtmlTag\<close> and the
  generator \<^verbatim>\<open>match_tag\<close> are used by \<^verbatim>\<open>_replace_tag\<close> but defined nowhere in the
  source. A tag is an instance of exactly one of the two classes (the \<open>kind\<close> of a
  Token), it has a name, a span and its literal source text, and it carries the two
  attributes the source reads and writes: \<^verbatim>\<open>closed\<close> and \<^verbatim>\<open>broken\<close>. The sequence
  produced by \<^verbatim>\<open>match_tag(html)\<close> is a parameter of the scanner.
\<close>

datatype tag_class = MathJaxTag | HtmlTag

record tag =
  cls :: tag_class
  tag_name :: string
  span :: "nat \<times> nat"
  literal :: string
  closed :: bool
  broken :: bool

text \<open>
  Modelled from the spec: the methods \<^verbatim>\<open>tag.delete(html)\<close> and
  \<^verbatim>\<open>tag.replace(html)\<close> are not in the source either. The local variable
  \<^verbatim>\<open>html\<close> is only ever rebound to the result of one of these two calls, so it is
  represented by the Edits applied to the original text so far, in order:
  \<^verbatim>\<open>html = tag.delete(html)\<close> appends \<open>Delete tag\<close> and
  \<^verbatim>\<open>html = tag.replace(html)\<close> appends \<open>ReplaceWithLiteral tag\<close>.
\<close>

datatype edit = Delete tag | ReplaceWithLiteral tag

subsection \<open>The state of the scan\<close>

text \<open>
  The three local variables of \<^verbatim>\<open>_replace_tag\<close>. The stacks are Python lists:
  \<^verbatim>\<open>append\<close> adds at the end, \<^verbatim>\<open>pop()\<close> removes the last element and
  \<^verbatim>\<open>stack[-1]\<close> reads it.
\<close>

record scan =
  html :: "edit list"
  mathjax_tag_stack :: "tag list"
  html_tag_stack :: "tag list"

definition init_scan :: scan where
  "init_scan = \<lparr>html = [], mathjax_tag_stack = [], html_tag_stack = []\<rparr>"

text \<open>\<^verbatim>\<open>list.pop()\<close>: raises \<^verbatim>\<open>IndexError\<close> on the empty list.\<close>

definition pop :: "'a list \<Rightarrow> py_error + 'a list" where
  "pop xs = (if xs = [] then Inl IndexError else Inr (butlast xs))"

text \<open>
  Line 159 reads the name \<^verbatim>\<open>math_tag_stack\<close>. The function assigns no such local
  variable (its stack is \<^verbatim>\<open>mathjax_tag_stack\<close>) and the module binds no such global,
  so the lookup finds nothing.
\<close>

definition math_tag_stack :: "tag list option" where
  "math_tag_stack = None"

subsection \<open>One iteration of the loop\<close>

text \<open>
  Lines 142--148, the body of \<^verbatim>\<open>if isinstance(tag, MathJaxTag)\<close>. The parameter
  \<open>call\<close> is \<^verbatim>\<open>tag()\<close>, the call operator of the absent tag classes.
\<close>

definition scan_mathjax :: "(tag \<Rightarrow> tag) \<Rightarrow> tag \<Rightarrow> scan \<Rightarrow> py_error + scan" where
  "scan_mathjax call t s =
     (if mathjax_tag_stack s = [] \<or> closed (last (mathjax_tag_stack s)) then
        (case pop (mathjax_tag_stack s) of
           Inl e \<Rightarrow> Inl e
         | Inr st \<Rightarrow> Inr (s\<lparr>mathjax_tag_stack := st\<rparr>))
      else
        Inr (s\<lparr>mathjax_tag_stack := mathjax_tag_stack s @ [call t]\<rparr>))"

text \<open>Lines 150--168, the body of \<^verbatim>\<open>if isinstance(tag, HtmlTag)\<close>.\<close>

definition scan_html :: "(tag \<Rightarrow> tag) \<Rightarrow> tag \<Rightarrow> scan \<Rightarrow> py_error + scan" where
  "scan_html call t s =
     (if html_tag_stack s = [] \<or> closed (last (html_tag_stack s)) then
        (let s1 = (if broken t then s\<lparr>html := html s @ [Delete t]\<rparr> else s) in
         case pop (html_tag_stack s1) of
           Inl e \<Rightarrow> Inl e
         | Inr st \<Rightarrow> Inr (s1\<lparr>html_tag_stack := st\<rparr>))
      else
        (case math_tag_stack of
           None \<Rightarrow> Inl (NameError ''math_tag_stack'')
         | Some m \<Rightarrow>
             if m = [] then
               Inr (s\<lparr>html_tag_stack := html_tag_stack s @ [call t]\<rparr>)
             else if mathjax_tag_stack s = [] then
               Inl IndexError
             else if closed (last (mathjax_tag_stack s)) then
               Inr (s\<lparr>html_tag_stack := html_tag_stack s @ [call t]\<rparr>)
             else
               (let t' = t\<lparr>broken := True\<rparr> in
                Inr (s\<lparr>html := html s @ [ReplaceWithLiteral t'],
                       html_tag_stack := html_tag_stack s @ [call t']\<rparr>))))"

text \<open>The loop body, lines 142--168: the two \<^verbatim>\<open>if isinstance\<close> statements in sequence.\<close>

definition scan_tag :: "(tag \<Rightarrow> tag) \<Rightarrow> tag \<Rightarrow> scan \<Rightarrow> py_error + scan" where
  "scan_tag call t s =
     (case (if cls t = MathJaxTag then scan_mathjax call t s else Inr s) of
        Inl e \<Rightarrow> Inl e
      | Inr s1 \<Rightarrow> if cls t = HtmlTag then scan_html call t s1 else Inr s1)"

subsection \<open>The loop and the end of the scan\<close>

text \<open>Line 140, \<^verbatim>\<open>for tag in match_tag(html)\<close>: an exception leaves the loop.\<close>

fun scan_tags :: "(tag \<Rightarrow> tag) \<Rightarrow> tag list \<Rightarrow> scan \<Rightarrow> py_error + scan" where
  "scan_tags call [] s = Inr s"
| "scan_tags call (t # ts) s =
     (case scan_tag call t s of
        Inl e \<Rightarrow> Inl e
      | Inr s' \<Rightarrow> scan_tags call ts s')"

text \<open>
  Lines 170--173. The message of the exception is \<^verbatim>\<open>'Broken html code:\n'\<close>; its
  newline and its second argument are left out. The last statement calls
  \<^verbatim>\<open>BeautifulSoap\<close>, a name that is bound nowhere (the module imports
  \<^verbatim>\<open>BeautifulSoup\<close>), so it raises before anything is rewritten.
\<close>

definition end_of_scan :: "scan \<Rightarrow> py_error + scan" where
  "end_of_scan s =
     (if html_tag_stack s = [] \<and> mathjax_tag_stack s = [] then
        Inl (PyException ''Broken html code:'')
      else Inl (NameError ''BeautifulSoap''))"

text \<open>\<^verbatim>\<open>_replace_tag\<close>, lines 134--173, on the tags that \<^verbatim>\<open>match_tag\<close> yields.\<close>

definition replace_tag :: "(tag \<Rightarrow> tag) \<Rightarrow> tag list \<Rightarrow> py_error + scan" where
  "replace_tag call tags =
     (case scan_tags call tags init_scan of
        Inl e \<Rightarrow> Inl e
      | Inr s \<Rightarrow> end_of_scan s)"

section \<open>Paths\<close>

text \<open>
  A \<^verbatim>\<open>pathlib.Path\<close> is the list of its components; two paths are equal when
  their components are. \<^verbatim>\<open>path.name\<close> is the last component, \<^verbatim>\<open>path.parent\<close>
  drops it and \<^verbatim>\<open>parent / name\<close> appends one.
\<close>

type_synonym path = "string list"

definition name :: "path \<Rightarrow> string" where
  "name p = (if p = [] then [] else last p)"

definition parent :: "path \<Rightarrow> path" where
  "parent p = butlast p"

definition joinpath :: "path \<Rightarrow> string \<Rightarrow> path" where
  "joinpath d n = d @ [n]"

text \<open>\<^verbatim>\<open>str.rfind\<close> for one character: the last index of \<open>c\<close>, or \<open>-1\<close>.\<close>

definition rfind :: "string \<Rightarrow> char \<Rightarrow> int" where
  "rfind s c =
     (if c \<in> set s
      then int (length s) - 1 - int (length (takeWhile (\<lambda>x. x \<noteq> c) (rev s)))
      else - 1)"

text \<open>
  \<^verbatim>\<open>path.suffix\<close> and \<^verbatim>\<open>path.stem\<close> as pathlib computes them: the name is split at
  its last dot, unless that dot is the first or the last character of the name.
\<close>

definition suffix :: "path \<Rightarrow> string" where
  "suffix p =
     (let n = name p; i = rfind n CHR ''.''
      in if 0 < i \<and> i < int (length n) - 1 then drop (nat i) n else [])"

definition stem :: "path \<Rightarrow> string" where
  "stem p =
     (let n = name p; i = rfind n CHR ''.''
      in if 0 < i \<and> i < int (length n) - 1 then take (nat i) n else n)"

section \<open>Files\<close>

text \<open>
  The file system maps a file to its content. Several paths can name one file
  (\<^verbatim>\<open>docs/page.html\<close> and \<^verbatim>\<open>docs/../docs/page.html\<close> are different paths):
  \<open>resolve\<close> gives the file that a path names, and the content is kept under it. The
  system can refuse an access to a path whatever the files hold (a directory that does
  not exist, a directory where a file is expected, a missing permission): \<open>refuses\<close>
  gives the error it raises then.

  \<^verbatim>\<open>open\<close> returns a handle; every call of \<^verbatim>\<open>open\<close> and of \<^verbatim>\<open>close\<close> is logged
  in the world, and the attributes \<^verbatim>\<open>self.infile_\<close> and \<^verbatim>\<open>self.outfile_\<close> of the
  processor at work are part of it (\<open>self_infile\<close>, \<open>self_outfile\<close>). Opening in mode
  \<^verbatim>\<open>'rb'\<close> raises when there is no such file; opening in mode \<^verbatim>\<open>'wb'\<close> creates the
  file or truncates it to empty content.
\<close>

datatype mode = RB | WB

datatype access = Open mode | Remove

record handle =
  hid :: nat
  hpath :: path
  hmode :: mode

record world =
  files :: "path \<rightharpoonup> string"
  resolve :: "path \<Rightarrow> path"
  refuses :: "path \<Rightarrow> access \<Rightarrow> py_error option"
  opened :: "handle list"
  closes :: "nat list"
  self_infile :: "handle option"
  self_outfile :: "handle option"

definition new_handle :: "world \<Rightarrow> path \<Rightarrow> mode \<Rightarrow> handle" where
  "new_handle w p m = \<lparr>hid = length (opened w), hpath = p, hmode = m\<rparr>"

definition py_open :: "path \<Rightarrow> mode \<Rightarrow> world \<Rightarrow> (py_error \<times> world) + (handle \<times> world)" where
  "py_open p m w =
     (case refuses w p (Open m) of
        Some e \<Rightarrow> Inl (e, w)
      | None \<Rightarrow>
          (case m of
             RB \<Rightarrow>
               (if files w (resolve w p) = None then Inl (FileNotFoundError, w)
                else Inr (new_handle w p m, w\<lparr>opened := opened w @ [new_handle w p m]\<rparr>))
           | WB \<Rightarrow>
               Inr (new_handle w p m,
                    w\<lparr>files := (files w)(resolve w p \<mapsto> []),
                      opened := opened w @ [new_handle w p m]\<rparr>)))"

definition py_close :: "handle option \<Rightarrow> world \<Rightarrow> world" where
  "py_close ho w = (case ho of None \<Rightarrow> w | Some h \<Rightarrow> w\<lparr>closes := closes w @ [hid h]\<rparr>)"

text \<open>
  \<^verbatim>\<open>read()\<close> gives the content that the file has when it is read, and raises on a
  handle opened for writing; \<^verbatim>\<open>write\<close> appends to the file, and raises on a handle
  opened for reading. An attribute that was never set raises \<^verbatim>\<open>AttributeError\<close>.
\<close>

definition py_read :: "handle option \<Rightarrow> world \<Rightarrow> py_error + string" where
  "py_read ho w =
     (case ho of
        None \<Rightarrow> Inl AttributeError
      | Some h \<Rightarrow>
          if hmode h = WB then Inl UnsupportedOperation
          else (case files w (resolve w (hpath h)) of None \<Rightarrow> Inr [] | Some c \<Rightarrow> Inr c))"

definition py_write :: "handle option \<Rightarrow> string \<Rightarrow> world \<Rightarrow> (py_error \<times> world) + world" where
  "py_write ho content w =
     (case ho of
        None \<Rightarrow> Inl (AttributeError, w)
      | Some h \<Rightarrow>
          if hmode h = RB then Inl (UnsupportedOperation, w)
          else Inr (w\<lparr>files := (files w)(resolve w (hpath h) \<mapsto>
                        (case files w (resolve w (hpath h)) of
                           None \<Rightarrow> content
                         | Some c \<Rightarrow> c @ content))\<rparr>))"

section \<open>\<^verbatim>\<open>Corrector.process\<close>\<close>

text \<open>
  An exception leaves the function with the world as it is at that moment, so a
  function that can raise returns \<open>(py_error \<times> world) + world\<close>. The method
  \<^verbatim>\<open>_process\<close> is abstract in \<^verbatim>\<open>Corrector\<close>: a processor is given by what its
  \<^verbatim>\<open>_process\<close> does to the world.
\<close>

type_synonym processor = "world \<Rightarrow> (py_error \<times> world) + world"

text \<open>Lines 79--87: the files are opened and the two attributes are set.\<close>

definition process_open :: "path \<Rightarrow> path \<Rightarrow> world \<Rightarrow> (py_error \<times> world) + world" where
  "process_open infile_path outfile_path w =
     (if infile_path = outfile_path then
        (case py_open infile_path WB w of
           Inl ew \<Rightarrow> Inl ew
         | Inr (infile, w1) \<Rightarrow> Inr (w1\<lparr>self_infile := Some infile, self_outfile := Some infile\<rparr>))
      else
        (case py_open infile_path RB w of
           Inl ew \<Rightarrow> Inl ew
         | Inr (infile, w1) \<Rightarrow>
             (case py_open outfile_path WB w1 of
                Inl ew \<Rightarrow> Inl ew
              | Inr (outfile, w2) \<Rightarrow>
                  Inr (w2\<lparr>self_infile := Some infile, self_outfile := Some outfile\<rparr>))))"

text \<open>Lines 91--93: the handles are closed.\<close>

definition process_close :: "path \<Rightarrow> path \<Rightarrow> world \<Rightarrow> world" where
  "process_close infile_path outfile_path w =
     (let w1 = py_close (self_outfile w) w
      in if infile_path \<noteq> outfile_path then py_close (self_infile w1) w1 else w1)"

text \<open>
  \<^verbatim>\<open>Corrector.process\<close>, lines 79--93. Nothing catches an exception of
  \<^verbatim>\<open>_process\<close>, and lines 91--93 do not run after one.
\<close>

definition Corrector_process ::
  "processor \<Rightarrow> path \<Rightarrow> path \<Rightarrow> world \<Rightarrow> (py_error \<times> world) + world" where
  "Corrector_process prc infile_path outfile_path w =
     (case process_open infile_path outfile_path w of
        Inl ew \<Rightarrow> Inl ew
      | Inr w1 \<Rightarrow>
          (case prc w1 of
             Inl ew \<Rightarrow> Inl ew
           | Inr w2 \<Rightarrow> Inr (process_close infile_path outfile_path w2)))"

section \<open>\<^verbatim>\<open>MathJaxCorrector._process\<close>\<close>

text \<open>
  Line 115 passes \<^verbatim>\<open>**soup_kws\<close>. The keyword arguments are kept in the attribute
  \<^verbatim>\<open>self.soup_kws\<close>; the bare name is bound nowhere, and it is evaluated before
  \<^verbatim>\<open>BeautifulSoup\<close> is called, so before anything is read.
\<close>

definition soup_kws :: "unit option" where
  "soup_kws = None"

text \<open>
  Lines 113--122. The parameter \<open>correct\<close> stands for what lies between the reading
  and the writing: the parse of line 115, the traversal \<^verbatim>\<open>_correct_tag\<close> of line 118,
  which can raise, and \<^verbatim>\<open>prettify\<close> of line 121. The only write is the last
  statement.
\<close>

definition MathJaxCorrector_process :: "(string \<Rightarrow> py_error + string) \<Rightarrow> processor" where
  "MathJaxCorrector_process correct w =
     (case soup_kws of
        None \<Rightarrow> Inl (NameError ''soup_kws'', w)
      | Some kws \<Rightarrow>
          (case py_read (self_infile w) w of
             Inl e \<Rightarrow> Inl (e, w)
           | Inr markup \<Rightarrow>
               (case correct markup of
                  Inl e \<Rightarrow> Inl (e, w)
                | Inr content \<Rightarrow> py_write (self_outfile w) content w)))"

section \<open>\<^verbatim>\<open>FileManager\<close>\<close>

text \<open>
  The attributes of a \<^verbatim>\<open>FileManager\<close> that \<^verbatim>\<open>process\<close> reads. The paths that
  \<^verbatim>\<open>files()\<close> yields (the directory walk and the pattern match) are a parameter.
\<close>

record file_manager =
  processors :: "processor list"
  delete_origin :: bool
  file_suffix :: string

text \<open>
  \<^verbatim>\<open>__init__\<close>, lines 33--41; the argument \<^verbatim>\<open>file_suffix\<close> is \<^verbatim>\<open>None\<close> or a
  string, and both \<^verbatim>\<open>None\<close> and the empty string are false.
\<close>

definition FileManager_init :: "processor list \<Rightarrow> bool \<Rightarrow> string option \<Rightarrow> file_manager" where
  "FileManager_init prcs del sfx =
     \<lparr>processors = prcs, delete_origin = del,
      file_suffix =
        (if (sfx = None \<or> sfx = Some []) \<and> \<not> del then ''fixed''
         else (case sfx of None \<Rightarrow> [] | Some x \<Rightarrow> x))\<rparr>"

text \<open>
  The state of the loop of \<^verbatim>\<open>process\<close>: the local variable \<^verbatim>\<open>infile_path\<close>, which
  is unbound (\<open>None\<close>) until line 60 assigns it, the world, and the log of the paths
  that line 63 has removed.
\<close>

record loop =
  infile_path :: "path option"
  world :: world
  removals :: "path list"

text \<open>\<^verbatim>\<open>os.remove\<close>: raises when the system refuses, or when there is no such file.\<close>

definition os_remove :: "path \<Rightarrow> loop \<Rightarrow> (py_error \<times> loop) + loop" where
  "os_remove p l =
     (case refuses (world l) p Remove of
        Some e \<Rightarrow> Inl (e, l)
      | None \<Rightarrow>
          if files (world l) (resolve (world l) p) = None then Inl (FileNotFoundError, l)
          else Inr (l\<lparr>world := (world l)\<lparr>files := (files (world l))(resolve (world l) p := None)\<rparr>,
                      removals := removals l @ [p]\<rparr>))"

text \<open>Line 54.\<close>

definition outfile_name :: "file_manager \<Rightarrow> path \<Rightarrow> string" where
  "outfile_name fm path = name path @ file_suffix fm @ suffix path"

text \<open>Line 55, with \<open>ip\<close> the value of \<^verbatim>\<open>infile_path\<close>.\<close>

definition outfile_path :: "file_manager \<Rightarrow> path \<Rightarrow> path \<Rightarrow> path" where
  "outfile_path fm ip path = joinpath (parent ip) (outfile_name fm path)"

text \<open>Lines 58--60, the loop over the processors.\<close>

fun run_processors :: "processor list \<Rightarrow> path \<Rightarrow> loop \<Rightarrow> (py_error \<times> loop) + loop" where
  "run_processors [] out l = Inr l"
| "run_processors (prc # prcs) out l =
     (case infile_path l of
        None \<Rightarrow> Inl (UnboundLocalError ''infile_path'', l)
      | Some ip \<Rightarrow>
          (case Corrector_process prc ip out (world l) of
             Inl (e, w) \<Rightarrow> Inl (e, l\<lparr>world := w\<rparr>)
           | Inr w \<Rightarrow> run_processors prcs out (l\<lparr>infile_path := Some out, world := w\<rparr>)))"

text \<open>
  Lines 54--63, the body of the loop over the files. Line 55 reads \<^verbatim>\<open>infile_path\<close>;
  line 56 assigns the path to another name, \<^verbatim>\<open>inffile_path\<close>, that nothing reads.
\<close>

definition process_file :: "file_manager \<Rightarrow> path \<Rightarrow> loop \<Rightarrow> (py_error \<times> loop) + loop" where
  "process_file fm path l =
     (case infile_path l of
        None \<Rightarrow> Inl (UnboundLocalError ''infile_path'', l)
      | Some ip \<Rightarrow>
          (case run_processors (processors fm) (outfile_path fm ip path) l of
             Inl el \<Rightarrow> Inl el
           | Inr l1 \<Rightarrow>
               if path \<noteq> outfile_path fm ip path \<and> delete_origin fm
               then os_remove path l1
               else Inr l1))"

text \<open>Line 53, \<^verbatim>\<open>for path in self.files()\<close>: no statement catches an exception.\<close>

fun process_files :: "file_manager \<Rightarrow> path list \<Rightarrow> loop \<Rightarrow> (py_error \<times> loop) + loop" where
  "process_files fm [] l = Inr l"
| "process_files fm (path # paths) l =
     (case process_file fm path l of
        Inl el \<Rightarrow> Inl el
      | Inr l1 \<Rightarrow> process_files fm paths l1)"


text \<open>The state in which a run ends, by return or by exception.\<close>

definition final :: "(py_error \<times> loop) + loop \<Rightarrow> loop" where
  "final r = (case r of Inl (e, l) \<Rightarrow> l | Inr l \<Rightarrow> l)"

section \<open>Concrete inputs\<close>

text \<open>
  The tags of the fragment \<^verbatim>\<open><p><em>x</em></p>\<close>, which has no math content, a math
  delimiter, and the tags of a fragment in which the text \<^verbatim>\<open>< b\<close> of a math expression
  was read as a tag inside the element \<^verbatim>\<open>e1\<close>.
\<close>

definition p_open :: tag where
  "p_open = \<lparr>cls = HtmlTag, tag_name = ''p'', span = (0, 3), literal = ''<p>'',
              closed = False, broken = False\<rparr>"

definition em_open :: tag where
  "em_open = \<lparr>cls = HtmlTag, tag_name = ''em'', span = (3, 7), literal = ''<em>'',
               closed = False, broken = False\<rparr>"

definition em_close :: tag where
  "em_close = \<lparr>cls = HtmlTag, tag_name = ''em'', span = (8, 13), literal = ''</em>'',
                closed = True, broken = False\<rparr>"

definition p_close :: tag where
  "p_close = \<lparr>cls = HtmlTag, tag_name = ''p'', span = (13, 17), literal = ''</p>'',
               closed = True, broken = False\<rparr>"

definition math_open :: tag where
  "math_open = \<lparr>cls = MathJaxTag, tag_name = ''$'', span = (4, 5), literal = ''$'',
                 closed = False, broken = False\<rparr>"

definition math_next :: tag where
  "math_next = \<lparr>cls = MathJaxTag, tag_name = ''$'', span = (12, 13), literal = ''$'',
                 closed = False, broken = False\<rparr>"

definition e1_open :: tag where
  "e1_open = \<lparr>cls = HtmlTag, tag_name = ''e1'', span = (0, 4), literal = ''<e1>'',
               closed = False, broken = False\<rparr>"

definition b_open :: tag where
  "b_open = \<lparr>cls = HtmlTag, tag_name = ''b'', span = (7, 10), literal = ''< b'',
              closed = False, broken = False\<rparr>"

text \<open>A scan inside a math expression that is inside an element.\<close>

definition scan_e1 :: scan where
  "scan_e1 = \<lparr>html = [], mathjax_tag_stack = [math_open], html_tag_stack = [e1_open]\<rparr>"

text \<open>
  Two files in the directory \<^verbatim>\<open>docs\<close>, a second path that names the first file, and
  a path in a directory that does not exist. Then the world after
  \<^verbatim>\<open>open(page, 'wb')\<close>, and a processor whose \<^verbatim>\<open>_process\<close> raises the exception of
  line 171 before it writes.
\<close>

definition page :: path where
  "page = [''docs'', ''page.html'']"

definition memo :: path where
  "memo = [''docs'', ''memo.html'']"

definition page_fixed :: path where
  "page_fixed = [''docs'', ''page.html-fixed.html'']"

definition page_alias :: path where
  "page_alias = [''docs'', ''..'', ''docs'', ''page.html'']"

definition nodir :: path where
  "nodir = [''nodir'', ''page.html'']"

definition resolve0 :: "path \<Rightarrow> path" where
  "resolve0 p = (if p = page_alias then page else p)"

definition refuses0 :: "path \<Rightarrow> access \<Rightarrow> py_error option" where
  "refuses0 p a = (if p = nodir then Some FileNotFoundError else None)"

definition world0 :: world where
  "world0 = \<lparr>files = [page \<mapsto> ''<p>x</p>'', memo \<mapsto> ''<p>y</p>''],
              resolve = resolve0, refuses = refuses0, opened = [], closes = [],
              self_infile = None, self_outfile = None\<rparr>"

definition page_truncated :: world where
  "page_truncated =
     world0\<lparr>files := [page \<mapsto> [], memo \<mapsto> ''<p>y</p>''],
            opened := [\<lparr>hid = 0, hpath = page, hmode = WB\<rparr>],
            self_infile := Some \<lparr>hid = 0, hpath = page, hmode = WB\<rparr>,
            self_outfile := Some \<lparr>hid = 0, hpath = page, hmode = WB\<rparr>\<rparr>"

definition raising :: processor where
  "raising w = Inl (PyException ''Broken html code:'', w)"


definition fm_delete :: file_manager where
  "fm_delete = FileManager_init [] True (Some ''-fixed'')"

definition loop0 :: loop where
  "loop0 = \<lparr>infile_path = Some page, world = world0, removals = []\<rparr>"

section \<open>The scanner: what \<^verbatim>\<open>_replace_tag\<close> does\<close>

text \<open>
  Both stacks are empty when the scan starts, and on an empty stack each of the two
  \<^verbatim>\<open>if isinstance\<close> bodies takes its \<^verbatim>\<open>pop()\<close> branch: the first tag, of either
  class, raises \<^verbatim>\<open>IndexError\<close>.
\<close>

lemma scan_tag_init_raises: "scan_tag call t init_scan = Inl IndexError"
  by (cases "cls t")
    (simp_all add: scan_tag_def scan_mathjax_def scan_html_def init_scan_def pop_def)

lemma scan_tags_init_raises: "scan_tags call (t # ts) init_scan = Inl IndexError"
  by (simp add: scan_tag_init_raises)

text \<open>So \<^verbatim>\<open>_replace_tag\<close> returns for no sequence of tags: it always raises.\<close>

lemma replace_tag_raises: "\<exists>e. replace_tag call tags = Inl e"
  by (cases tags) (simp_all add: replace_tag_def scan_tag_init_raises end_of_scan_def)

text \<open>The exception of line 171 is raised exactly when both stacks are empty.\<close>

lemma end_of_scan_balanced:
  "(end_of_scan s = Inl (PyException ''Broken html code:''))
     = (html_tag_stack s = [] \<and> mathjax_tag_stack s = [])"
  by (simp add: end_of_scan_def)

text \<open>
  C1. Reconciliation is to succeed exactly when both stacks are empty at the end of the
  scan, and no error is to be raised then. The code does the opposite at lines 170--171:
  on a fragment without tags the scan ends with both stacks empty, and
  \<^verbatim>\<open>_replace_tag\<close> raises \<^verbatim>\<open>Exception('Broken html code:\n', ...)\<close>.
\<close>

theorem replace_tag_no_tags_raises:
  "scan_tags call [] init_scan = Inr init_scan
   \<and> html_tag_stack init_scan = [] \<and> mathjax_tag_stack init_scan = []
   \<and> replace_tag call [] = Inl (PyException ''Broken html code:'')"
  by (simp add: replace_tag_def end_of_scan_def init_scan_def)

text \<open>
  C2. A math delimiter scanned on an empty \<^verbatim>\<open>mathjax_tag_stack\<close> is to be pushed, and
  one scanned on an unclosed open delimiter is to pop it; a pop is never to be attempted
  on an empty stack. The code has the two branches the other way round (lines 143--148):
  the first math delimiter of a fragment calls \<^verbatim>\<open>pop()\<close> on the empty stack and raises
  \<^verbatim>\<open>IndexError\<close>, and a delimiter scanned on an unclosed one is pushed.
\<close>

theorem scan_mathjax_pops_empty_stack:
  "scan_tag call math_open init_scan = Inl IndexError
   \<and> replace_tag call [math_open] = Inl IndexError
   \<and> scan_tag call math_next scan_e1
       = Inr (scan_e1\<lparr>mathjax_tag_stack := [math_open, call math_next]\<rparr>)"
  by (simp add: replace_tag_def scan_tag_init_raises)
    (simp add: scan_tag_def scan_mathjax_def scan_e1_def math_open_def math_next_def)

text \<open>
  C3. A close tag is to pop the innermost open entry of \<^verbatim>\<open>html_tag_stack\<close>. On the
  fragment \<^verbatim>\<open><em>x</em>\<close> the code never gets to the close tag: the open tag meets
  the empty stack, takes the \<^verbatim>\<open>pop()\<close> branch of line 151 and raises
  \<^verbatim>\<open>IndexError\<close>. A close tag that comes first raises in the same way. And were
  the open tag on the stack, the close tag would not pop it: the top is not marked
  closed, so the close tag goes to the branch of lines 159--168 and raises
  \<^verbatim>\<open>NameError\<close>.
\<close>

theorem scan_html_close_raises:
  "replace_tag call [em_open, em_close] = Inl IndexError
   \<and> scan_tag call em_close init_scan = Inl IndexError
   \<and> scan_tag call em_close
         \<lparr>html = [], mathjax_tag_stack = [], html_tag_stack = [em_open]\<rparr>
       = Inl (NameError ''math_tag_stack'')"
  by (simp add: replace_tag_def scan_tag_init_raises)
    (simp add: scan_tag_def scan_html_def math_tag_stack_def em_open_def em_close_def)

text \<open>
  C4. An \<^verbatim>\<open>HtmlTag\<close> open tag scanned while no math expression is open is to be pushed
  unmarked, and one scanned inside a math expression is to be marked broken, replaced by
  its literal and pushed. The code does neither. The first tag of a fragment meets the
  empty \<^verbatim>\<open>html_tag_stack\<close>, takes the \<^verbatim>\<open>pop()\<close> branch and raises
  \<^verbatim>\<open>IndexError\<close>; and on a stack whose top is open, line 159 reads the unbound name
  \<^verbatim>\<open>math_tag_stack\<close> and raises \<^verbatim>\<open>NameError\<close>, so lines 160--168 never run.
\<close>

theorem scan_html_open_raises:
  "replace_tag call [p_open] = Inl IndexError
   \<and> scan_tag call b_open scan_e1 = Inl (NameError ''math_tag_stack'')"
  by (simp add: replace_tag_def scan_tag_init_raises)
    (simp add: scan_tag_def scan_html_def math_tag_stack_def scan_e1_def e1_open_def
      b_open_def)

text \<open>
  C8. The repair of an already corrected fragment is to produce no edits. On the
  fragment \<^verbatim>\<open><p><em>x</em></p>\<close>, which needs no correction, the code produces neither
  an edit list nor a text: the first tag raises \<^verbatim>\<open>IndexError\<close>.
\<close>

theorem replace_tag_corrected_fragment_raises:
  "replace_tag call [p_open, em_open, em_close, p_close] = Inl IndexError"
  by (simp add: replace_tag_def scan_tag_init_raises)

section \<open>The name of the output file\<close>

lemma name_stem_suffix: "name p = stem p @ suffix p"
  by (simp add: stem_def suffix_def Let_def)

text \<open>Line 54 starts from \<^verbatim>\<open>path.name\<close>, so the extension is there twice.\<close>

lemma outfile_name_stem:
  "outfile_name fm p = stem p @ suffix p @ file_suffix fm @ suffix p"
  by (simp add: outfile_name_def name_stem_suffix)

lemma outfile_name_differs:
  assumes "suffix p \<noteq> []"
  shows "outfile_name fm p \<noteq> stem p @ file_suffix fm @ suffix p"
proof
  assume "outfile_name fm p = stem p @ file_suffix fm @ suffix p"
  then have "length (outfile_name fm p) = length (stem p @ file_suffix fm @ suffix p)"
    by simp
  then have "length (suffix p) = 0"
    by (simp add: outfile_name_stem)
  with assms show False by simp
qed

text \<open>
  C7. The output name is to be the stem, the configured suffix and the extension, the
  extension once. For \<^verbatim>\<open>docs/page.html\<close> and the suffix \<^verbatim>\<open>-fixed\<close> line 54 computes
  \<^verbatim>\<open>page.html-fixed.html\<close>, not \<^verbatim>\<open>page-fixed.html\<close>.
\<close>

theorem outfile_name_repeats_extension:
  "outfile_name (FileManager_init [] False (Some ''-fixed'')) page = ''page.html-fixed.html''
   \<and> stem page @ file_suffix (FileManager_init [] False (Some ''-fixed'')) @ suffix page
       = ''page-fixed.html''"
  by (simp add: outfile_name_def FileManager_init_def page_def name_def suffix_def stem_def
      rfind_def Let_def)

section \<open>\<^verbatim>\<open>Corrector.process\<close>: the files it opens\<close>

text \<open>When the system refuses the path, line 80 raises and nothing is opened.\<close>

lemma process_open_same_path_refused:
  assumes "refuses w p (Open WB) = Some e"
  shows "process_open p p w = Inl (e, w) \<and> Corrector_process prc p p w = Inl (e, w)"
  using assms by (simp add: Corrector_process_def process_open_def py_open_def)

text \<open>
  C10, as stated, fails. The paths are equal, but the directory of the path does not
  exist: \<^verbatim>\<open>open(infile_path, 'wb')\<close> raises \<^verbatim>\<open>FileNotFoundError\<close>, no handle is
  opened, the attributes are not set, nothing is truncated, and \<^verbatim>\<open>_process\<close> is not
  called.
\<close>

theorem process_open_same_path_counterexample:
  "refuses world0 nodir (Open WB) = Some FileNotFoundError
   \<and> process_open nodir nodir world0 = Inl (FileNotFoundError, world0)
   \<and> Corrector_process raising nodir nodir world0 = Inl (FileNotFoundError, world0)
   \<and> opened world0 = [] \<and> self_infile world0 = None \<and> self_outfile world0 = None"
  by (simp add: Corrector_process_def process_open_def py_open_def world0_def refuses0_def)

text \<open>
  C10, amended. When \<^verbatim>\<open>infile_path\<close> equals \<^verbatim>\<open>outfile_path\<close> and the system does not
  refuse to open the path for writing, \<^verbatim>\<open>Corrector.process\<close> opens one handle, in mode
  \<^verbatim>\<open>'wb'\<close>, and sets both \<^verbatim>\<open>infile_\<close> and \<^verbatim>\<open>outfile_\<close> to it; the file that the
  path names is empty in the world that \<^verbatim>\<open>_process\<close> starts in, so its content is gone
  before anything reads it.
\<close>

theorem process_open_same_path:
  assumes "ip = out"
    and "refuses w ip (Open WB) = None"
    and "w1 = w\<lparr>files := (files w)(resolve w ip \<mapsto> []),
                 opened := opened w @ [new_handle w ip WB],
                 self_infile := Some (new_handle w ip WB),
                 self_outfile := Some (new_handle w ip WB)\<rparr>"
  shows "process_open ip out w = Inr w1
         \<and> opened w1 = opened w @ [new_handle w ip WB]
         \<and> hmode (new_handle w ip WB) = WB
         \<and> self_infile w1 = self_outfile w1
         \<and> files w1 (resolve w1 ip) = Some []
         \<and> Corrector_process prc ip out w
             = (case prc w1 of
                  Inl ew \<Rightarrow> Inl ew
                | Inr w2 \<Rightarrow> Inr (process_close ip out w2))"
proof -
  have "process_open ip out w = Inr w1"
    using assms by (simp add: process_open_def py_open_def)
  then show ?thesis
    using assms(3) by (simp add: Corrector_process_def new_handle_def)
qed

theorem process_open_same_path_witness:
  "refuses world0 page (Open WB) = None
   \<and> files world0 (resolve world0 page) = Some ''<p>x</p>''
   \<and> process_open page page world0 = Inr page_truncated
   \<and> opened page_truncated = [\<lparr>hid = 0, hpath = page, hmode = WB\<rparr>]
   \<and> self_infile page_truncated = self_outfile page_truncated
   \<and> files page_truncated (resolve page_truncated page) = Some []"
proof -
  have ok: "refuses world0 page (Open WB) = None"
    by (simp add: world0_def refuses0_def page_def nodir_def)
  have w1: "page_truncated
        = world0\<lparr>files := (files world0)(resolve world0 page \<mapsto> []),
                 opened := opened world0 @ [new_handle world0 page WB],
                 self_infile := Some (new_handle world0 page WB),
                 self_outfile := Some (new_handle world0 page WB)\<rparr>"
    by (simp add: page_truncated_def world0_def resolve0_def new_handle_def page_def
        page_alias_def memo_def fun_upd_twist)
  from process_open_same_path [of page page world0 page_truncated raising, OF refl ok w1]
  show ?thesis
    using ok
    by (simp add: page_truncated_def world0_def resolve0_def new_handle_def page_def
        page_alias_def memo_def)
qed

section \<open>\<^verbatim>\<open>Corrector.process\<close>: an exception of \<^verbatim>\<open>_process\<close>\<close>

text \<open>
  In the source as it is, \<^verbatim>\<open>MathJaxCorrector._process\<close> raises at its first
  statement, whatever the correction would do, and leaves the world as it finds it.
\<close>

lemma MathJaxCorrector_process_raises:
  "MathJaxCorrector_process correct w = Inl (NameError ''soup_kws'', w)"
  by (simp add: MathJaxCorrector_process_def soup_kws_def)

text \<open>
  In place, whatever \<^verbatim>\<open>_process\<close> raises, it raises after the truncation of line 80,
  and nothing in \<^verbatim>\<open>Corrector.process\<close> restores the file.
\<close>

lemma Corrector_process_in_place_raise:
  assumes "refuses w p (Open WB) = None"
    and "w1 = w\<lparr>files := (files w)(resolve w p \<mapsto> []),
                 opened := opened w @ [new_handle w p WB],
                 self_infile := Some (new_handle w p WB),
                 self_outfile := Some (new_handle w p WB)\<rparr>"
    and "prc w1 = Inl (e, w2)"
  shows "Corrector_process prc p p w = Inl (e, w2)"
  using assms by (simp add: Corrector_process_def process_open_def py_open_def)

text \<open>
  C6. When the correction of a file raises, the original file is to keep its content,
  also in place. The code opens the file in mode \<^verbatim>\<open>'wb'\<close> at line 80, before
  \<^verbatim>\<open>_process\<close> runs, where the other branch opens the input in mode \<^verbatim>\<open>'rb'\<close>. For
  the file \<^verbatim>\<open>docs/page.html\<close> with the content \<^verbatim>\<open><p>x</p>\<close> processed in place, the
  call raises and the file is left empty: with \<^verbatim>\<open>MathJaxCorrector._process\<close>, which
  raises at line 115, and with a \<^verbatim>\<open>_process\<close> that raises the exception of line 171.
\<close>

theorem Corrector_process_in_place_loses_content:
  "files world0 (resolve world0 page) = Some ''<p>x</p>''
   \<and> Corrector_process (MathJaxCorrector_process correct) page page world0
       = Inl (NameError ''soup_kws'', page_truncated)
   \<and> Corrector_process raising page page world0
       = Inl (PyException ''Broken html code:'', page_truncated)
   \<and> files page_truncated (resolve page_truncated page) = Some []"
  by (simp add: Corrector_process_def process_open_def py_open_def raising_def
      MathJaxCorrector_process_raises page_truncated_def world0_def resolve0_def
      refuses0_def new_handle_def page_def page_alias_def nodir_def memo_def fun_upd_twist)

text \<open>
  The same loss with two different paths that name one file: the input is opened for
  reading, and the output path truncates it.
\<close>

lemma Corrector_process_alias_loses_content:
  "page \<noteq> page_alias
   \<and> files (snd (projl (Corrector_process raising page page_alias world0)))
       (resolve world0 page) = Some []"
  by (simp add: Corrector_process_def process_open_def py_open_def raising_def
      world0_def resolve0_def refuses0_def new_handle_def page_def page_alias_def
      nodir_def)

section \<open>\<^verbatim>\<open>FileManager.process\<close>: the loop over the files\<close>


text \<open>
  No statement of the loop catches an exception: from any state of the loop, when the
  files before it have been processed and the processing of a file raises, the run ends
  in the state of the raise, whatever files follow.
\<close>

lemma process_files_no_catch:
  assumes "process_files fm pre l = Inr l1"
    and "process_file fm path l1 = Inl el"
  shows "process_files fm (pre @ path # post) l = Inl el"
  using assms
proof (induction pre arbitrary: l)
  case Nil
  then show ?case by simp
next
  case (Cons p pre)
  then show ?case
    by (cases "process_file fm p l") simp_all
qed


section \<open>\<^verbatim>\<open>FileManager.process\<close>: the removal of the original\<close>

text \<open>The processors are not given the log of removals.\<close>

lemma run_processors_removals_Inr:
  "run_processors prcs out l = Inr l1 \<Longrightarrow> removals l1 = removals l"
proof (induction prcs arbitrary: l)
  case Nil
  then show ?case by simp
next
  case (Cons prc prcs)
  then show ?case
    by (fastforce split: option.splits sum.splits prod.splits)
qed

lemma run_processors_removals_Inl:
  "run_processors prcs out l = Inl (e, l1) \<Longrightarrow> removals l1 = removals l"
proof (induction prcs arbitrary: l)
  case Nil
  then show ?case by simp
next
  case (Cons prc prcs)
  then show ?case
    by (fastforce split: option.splits sum.splits prod.splits)
qed

lemma os_remove_removals:
  "removals (final (os_remove p l))
     = (if refuses (world l) p Remove = None
           \<and> files (world l) (resolve (world l) p) \<noteq> None
        then removals l @ [p] else removals l)"
  by (simp add: os_remove_def final_def split: option.splits)

text \<open>
  One iteration of the loop leaves the log of removals as it is, or adds the path of the
  file at hand; it adds it only when \<^verbatim>\<open>delete_origin\<close> is true and the output path
  of line 55 differs from the path.
\<close>

lemma process_file_removals:
  "removals (final (process_file fm path l)) = removals l
   \<or> (removals (final (process_file fm path l)) = removals l @ [path]
      \<and> delete_origin fm
      \<and> (\<exists>ip. infile_path l = Some ip \<and> path \<noteq> outfile_path fm ip path))"
proof (cases "infile_path l")
  case None
  then show ?thesis
    by (simp add: process_file_def final_def)
next
  case (Some ip)
  show ?thesis
  proof (cases "run_processors (processors fm) (outfile_path fm ip path) l")
    case (Inl el)
    obtain e l1 where el: "el = (e, l1)"
      by (cases el)
    from Inl el have "removals l1 = removals l"
      by (simp add: run_processors_removals_Inl)
    with Some Inl el show ?thesis
      by (simp add: process_file_def final_def)
  next
    case (Inr l1)
    then have same: "removals l1 = removals l"
      by (rule run_processors_removals_Inr)
    show ?thesis
    proof (cases "path \<noteq> outfile_path fm ip path \<and> delete_origin fm")
      case True
      with Some Inr have "process_file fm path l = os_remove path l1"
        by (simp add: process_file_def)
      with same True Some show ?thesis
        by (simp add: os_remove_removals)
    next
      case False
      with Some Inr have "process_file fm path l = Inr l1"
        by (auto simp add: process_file_def)
      with same show ?thesis
        by (simp add: final_def)
    qed
  qed
qed

text \<open>Over the whole loop: without \<^verbatim>\<open>delete_origin\<close> nothing is removed.\<close>

lemma process_files_keeps_all:
  assumes "\<not> delete_origin fm"
  shows "removals (final (process_files fm paths l)) = removals l"
proof (induction paths arbitrary: l)
  case Nil
  show ?case by (simp add: final_def)
next
  case (Cons path paths)
  from assms process_file_removals [of fm path l]
  have one: "removals (final (process_file fm path l)) = removals l"
    by blast
  show ?case
  proof (cases "process_file fm path l")
    case (Inl el)
    with one show ?thesis by simp
  next
    case (Inr l1)
    with one have "removals l1 = removals l"
      by (simp add: final_def)
    with Inr Cons.IH [of l1] show ?thesis by simp
  qed
qed

text \<open>
  C9. One iteration of the loop, from any state of the loop, removes nothing but the
  file at hand, and removes it only when \<^verbatim>\<open>delete_origin\<close> is true and the output path
  computed at line 55 differs from the path of the file: if the log of removals has
  changed, by return or by exception, both hold and the path of the file is the one
  entry added.
\<close>

theorem process_file_removes_only:
  assumes "removals (final (process_file fm path l)) \<noteq> removals l"
  shows "delete_origin fm
         \<and> (\<exists>ip. infile_path l = Some ip \<and> path \<noteq> outfile_path fm ip path)
         \<and> removals (final (process_file fm path l)) = removals l @ [path]"
  using assms process_file_removals [of fm path l] by blast

theorem process_file_removes_only_witness:
  "removals (final (process_file fm_delete page loop0)) \<noteq> removals loop0
   \<and> delete_origin fm_delete
   \<and> infile_path loop0 = Some page
   \<and> outfile_path fm_delete page page = page_fixed
   \<and> page \<noteq> page_fixed
   \<and> removals (final (process_file fm_delete page loop0)) = [page]"
proof -
  have run: "removals (final (process_file fm_delete page loop0)) = [page]"
    by (simp add: process_file_def loop0_def fm_delete_def FileManager_init_def
        outfile_path_def outfile_name_def joinpath_def parent_def name_def suffix_def
        rfind_def os_remove_def final_def world0_def resolve0_def refuses0_def
        page_def page_alias_def nodir_def memo_def)
  have out: "outfile_path fm_delete page page = page_fixed"
    by (simp add: fm_delete_def FileManager_init_def outfile_path_def outfile_name_def
        joinpath_def parent_def name_def suffix_def rfind_def page_def page_fixed_def)
  have changed: "removals (final (process_file fm_delete page loop0)) \<noteq> removals loop0"
    using run by (simp add: loop0_def)
  from process_file_removes_only [OF changed] run out changed show ?thesis
    by (simp add: loop0_def fm_delete_def FileManager_init_def page_def page_fixed_def)
qed

end
